theory Spec2Isabelle
  imports
    Main
    "HOL-Library.Word"
    "HOL-Library.Char_ord"
    "HOL-Library.List_Lexorder"
    "HOL-Library.AList"
begin

section \<open>JavaScript objects used as maps\<close>

text \<open>
  The sources keep two tables in object literals: \<open>var schemes = {}\<close> in
  KeyExchangeScheme.js and \<open>var hash = {}\<close> in \<open>computeIntersection\<close>. An object
  literal has its own properties, kept here as an association list in insertion order, and
  it inherits every property of \<open>Object.prototype\<close>. A read \<open>obj[key]\<close> looks at the own
  properties first and follows the prototype chain when the key is not an own property.

  \<open>Object_prototype\<close> lists the property names of \<open>Object.prototype\<close>: the seven of
  ECMAScript 5.1 (section 15.2.4) and the five of Annex B of the later editions, which
  every engine that runs scripts in a browser defines. Each of the first eleven holds a
  function object; \<open>__proto__\<close> reads as the prototype object itself. All twelve are truthy.
\<close>

definition Object_prototype :: "string list" where
  "Object_prototype =
     [''constructor'', ''toString'', ''toLocaleString'', ''valueOf'',
      ''hasOwnProperty'', ''isPrototypeOf'', ''propertyIsEnumerable'',
      ''__proto__'', ''__defineGetter__'', ''__defineSetter__'',
      ''__lookupGetter__'', ''__lookupSetter__'']"

text \<open>
  What a read yields: \<open>undefined\<close>, \<open>null\<close>, a value the program stored itself, or the
  built-in value that \<open>Object.prototype\<close> holds under the given name.
\<close>

datatype 'a js_ref = JUndefined | JNull | JOwn 'a | JBuiltin string

definition js_get :: "(string \<times> 'a) list \<Rightarrow> string \<Rightarrow> 'a js_ref" where
  "js_get obj key =
     (case map_of obj key of
        Some v \<Rightarrow> JOwn v
      | None \<Rightarrow> if key \<in> set Object_prototype then JBuiltin key else JUndefined)"

text \<open>A property as \<open>Object.defineProperties\<close> receives it; an attribute left out is false.\<close>

record 'a property =
  prop_value :: 'a
  writable :: bool
  enumerable :: bool
  configurable :: bool

section \<open>Exceptions\<close>

text \<open>
  \<open>MslError\<close> is not among the sources; the constants the sources name are the members of
  an enumeration. An exception is a value; a function that can throw returns
  \<open>exception + 'a\<close>, with \<open>Inl\<close> for the exception thrown.
\<close>

datatype MslError =
    MSL_PARSE_ERROR
  | WRAP_NOT_SUPPORTED
  | UNWRAP_NOT_SUPPORTED
  | VERIFY_NOT_SUPPORTED
  | SIGNATURE_ERROR

datatype exception =
    SyntaxError string
  | ReferenceError string
  | TypeError string
  | MslEncoderException string
  | MslEncodingException MslError exception
  | MslCryptoException MslError string

fun is_MslEncoderException :: "exception \<Rightarrow> bool" where
  "is_MslEncoderException (MslEncoderException m) = True"
| "is_MslEncoderException e = False"

section \<open>keyx/KeyExchangeScheme.js\<close>

record KeyExchangeScheme =
  name :: "string property"

type_synonym schemes = "(string \<times> KeyExchangeScheme) list"

text \<open>
  The constructor defines the property \<open>name\<close> on the new object and stores the object in
  the shared table: \<open>schemes[name] = this\<close>. The table is passed in and returned.

  The one name this does not follow is \<open>__proto__\<close>: assigning an object under it replaces
  the prototype of the table and adds no key. The initialization below constructs no
  scheme of that name.
\<close>

definition KeyExchangeScheme_new :: "string \<Rightarrow> schemes \<Rightarrow> KeyExchangeScheme \<times> schemes" where
  "KeyExchangeScheme_new nm schemes =
     (let this = \<lparr> name = \<lparr> prop_value = nm, writable = False,
                             enumerable = False, configurable = False \<rparr> \<rparr>
      in (this, AList.update nm this schemes))"

text \<open>
  The static members mixed into \<open>KeyExchangeScheme\<close>. The object literal evaluates its five
  \<open>new KeyExchangeScheme(...)\<close> expressions from top to bottom, starting from the empty
  table.
\<close>

record KeyExchangeScheme_statics =
  ASYMMETRIC_WRAPPED :: KeyExchangeScheme
  DIFFIE_HELLMAN :: KeyExchangeScheme
  JWE_LADDER :: KeyExchangeScheme
  JWK_LADDER :: KeyExchangeScheme
  SYMMETRIC_WRAPPED :: KeyExchangeScheme

definition KeyExchangeScheme_initialization :: "KeyExchangeScheme_statics \<times> schemes" where
  "KeyExchangeScheme_initialization =
     (let schemes = [];
          (s1, schemes) = KeyExchangeScheme_new ''ASYMMETRIC_WRAPPED'' schemes;
          (s2, schemes) = KeyExchangeScheme_new ''DIFFIE_HELLMAN'' schemes;
          (s3, schemes) = KeyExchangeScheme_new ''JWE_LADDER'' schemes;
          (s4, schemes) = KeyExchangeScheme_new ''JWK_LADDER'' schemes;
          (s5, schemes) = KeyExchangeScheme_new ''SYMMETRIC_WRAPPED'' schemes
      in (\<lparr> ASYMMETRIC_WRAPPED = s1, DIFFIE_HELLMAN = s2, JWE_LADDER = s3,
            JWK_LADDER = s4, SYMMETRIC_WRAPPED = s5 \<rparr>, schemes))"

definition statics :: KeyExchangeScheme_statics where
  "statics = fst KeyExchangeScheme_initialization"

definition registered :: schemes where
  "registered = snd KeyExchangeScheme_initialization"

text \<open>
  \<open>return (schemes[name]) ? schemes[name] : null;\<close> A stored scheme is an object and an
  inherited member is a function: both are truthy and are returned as they are.
\<close>

definition KeyExchangeScheme_getScheme :: "schemes \<Rightarrow> string \<Rightarrow> KeyExchangeScheme js_ref" where
  "KeyExchangeScheme_getScheme schemes nm =
     (case js_get schemes nm of
        JOwn s \<Rightarrow> JOwn s
      | JBuiltin f \<Rightarrow> JBuiltin f
      | JUndefined \<Rightarrow> JNull
      | JNull \<Rightarrow> JNull)"

section \<open>msg/MessageCapabilities.js\<close>

subsection \<open>The script as shipped\<close>

text \<open>
  The file is one script: three \<open>var\<close> declarations and a function expression, called at
  once, whose body assigns the globals \<open>MessageCapabilities\<close>, \<open>MessageCapabilities$parse\<close>
  and \<open>MessageCapabilities$intersection\<close>. The class is built by
  \<open>MslEncodable.extend({...})\<close>, whose argument is an object literal with the four members
  \<open>init\<close>, \<open>toMslEncoding\<close>, \<open>equals\<close> and \<open>uniqueKey\<close>.

  In an object literal a member is followed by a comma or by the closing brace of the
  literal; a comma before the closing brace is allowed. \<open>extend_members\<close> lists the four
  members in the order of the source, each with whether a comma follows it. The closing
  brace of \<open>toMslEncoding\<close> on line 146 is followed by a doc comment and by the member
  \<open>equals\<close> of line 149, with no comma between them; the other three members end in
  \<open>},\<close> (lines 131, 155 and 160).
\<close>

definition extend_members :: "(string \<times> bool) list" where
  "extend_members =
     [(''init'', True), (''toMslEncoding'', False), (''equals'', True), (''uniqueKey'', True)]"

fun object_literal_parses :: "(string \<times> bool) list \<Rightarrow> bool" where
  "object_literal_parses [] = True"
| "object_literal_parses [m] = True"
| "object_literal_parses (m # n # ms) = (snd m \<and> object_literal_parses (n # ms))"

text \<open>
  A script that does not parse is rejected as a whole with a SyntaxError: no statement of
  it runs and none of its declarations takes effect.
\<close>

definition MessageCapabilities_js :: "exception + unit" where
  "MessageCapabilities_js =
     (if object_literal_parses extend_members then Inr ()
      else Inl (SyntaxError ''Unexpected identifier''))"

text \<open>
  A use of one of the script's globals by a caller. When the script was evaluated the
  name is bound and its body runs. When the script was rejected the name is not declared
  (no other source declares it) and reading it throws a ReferenceError.
\<close>

definition use_global :: "string \<Rightarrow> exception + 'a \<Rightarrow> exception + 'a" where
  "use_global nm body =
     (case MessageCapabilities_js of
        Inl e \<Rightarrow> Inl (ReferenceError nm)
      | Inr u \<Rightarrow> body)"

subsection \<open>The constructor body\<close>

text \<open>
  The subsections from here to the parse give the bodies of the script's functions, as
  they would run in a script that was evaluated. What a caller of the shipped script
  meets is given after them, through \<open>use_global\<close>.

  Compression algorithms and languages are strings. An encoder format is an
  \<open>MslEncoderFormat\<close> object; that class is not among the sources, so its type is the
  parameter \<open>'f\<close>. Each of the three properties holds an array or \<open>null\<close> (\<open>None\<close>).
\<close>

record 'f MessageCapabilities =
  compressionAlgorithms :: "string list option property"
  languages :: "string list option property"
  encoderFormats :: "'f list option property"

text \<open>
  \<open>init\<close>: a null or missing argument is falsy and is replaced by a new empty array (an
  array is truthy, the empty one too); then \<open>compressionAlgos.sort()\<close>, whose default order
  on strings is the lexicographic order of their code units; then the three properties are
  defined.
\<close>

definition init_body ::
  "string list option \<Rightarrow> string list option \<Rightarrow> 'f list option \<Rightarrow> 'f MessageCapabilities" where
  "init_body compressionAlgos langs formats =
     (let compressionAlgos1 = (case compressionAlgos of None \<Rightarrow> [] | Some a \<Rightarrow> a);
          langs1 = (case langs of None \<Rightarrow> [] | Some a \<Rightarrow> a);
          formats1 = (case formats of None \<Rightarrow> [] | Some a \<Rightarrow> a);
          compressionAlgos2 = sort compressionAlgos1
      in \<lparr> compressionAlgorithms =
             \<lparr> prop_value = Some compressionAlgos2, writable = False,
               enumerable = True, configurable = False \<rparr>,
           languages =
             \<lparr> prop_value = Some langs1, writable = False,
               enumerable = True, configurable = False \<rparr>,
           encoderFormats =
             \<lparr> prop_value = Some formats1, writable = False,
               enumerable = True, configurable = False \<rparr> \<rparr>)"

subsection \<open>computeIntersection\<close>

text \<open>
  The first loop: \<open>hash[a[i]] = true\<close> for every element of \<open>a\<close>. Assigning a boolean
  under \<open>__proto__\<close> changes nothing: the inherited setter ignores a value that is neither
  an object nor \<open>null\<close>, and no own key is added.
\<close>

fun fill_hash :: "string list \<Rightarrow> (string \<times> bool) list \<Rightarrow> (string \<times> bool) list" where
  "fill_hash [] hash = hash"
| "fill_hash (x # xs) hash =
     fill_hash xs (if x = ''__proto__'' then hash else AList.update x True hash)"

text \<open>
  The test \<open>if (hash[b[i]])\<close>: an own entry holds \<open>true\<close>; a name that
  \<open>Object.prototype\<close> defines reads as a built-in value, which is truthy as well.
\<close>

definition hash_truthy :: "(string \<times> bool) list \<Rightarrow> string \<Rightarrow> bool" where
  "hash_truthy hash key =
     (case js_get hash key of
        JOwn v \<Rightarrow> v
      | JBuiltin f \<Rightarrow> True
      | JUndefined \<Rightarrow> False
      | JNull \<Rightarrow> False)"

text \<open>The second loop: every element of \<open>b\<close> that passes the test is pushed, in order.\<close>

fun push_common :: "(string \<times> bool) list \<Rightarrow> string list \<Rightarrow> string list \<Rightarrow> string list" where
  "push_common hash [] intersection = intersection"
| "push_common hash (y # ys) intersection =
     push_common hash ys (if hash_truthy hash y then intersection @ [y] else intersection)"

text \<open>Reading \<open>length\<close> of \<open>null\<close> throws a TypeError.\<close>

definition computeIntersection ::
  "string list option \<Rightarrow> string list option \<Rightarrow> exception + string list" where
  "computeIntersection a b =
     (case a of
        None \<Rightarrow> Inl (TypeError ''length'')
      | Some a1 \<Rightarrow>
          (let hash = fill_hash a1 []
           in case b of
                None \<Rightarrow> Inl (TypeError ''length'')
              | Some b1 \<Rightarrow> Inr (push_common hash b1 [])))"

subsection \<open>The body of MessageCapabilities$intersection\<close>

text \<open>
  Line 97 of the source calls \<open>computerIntersection\<close>. The file declares
  \<open>computeIntersection\<close> and no function of the other name, and no other source declares a
  global of that name. Evaluating the call reads the identifier first, which throws a
  ReferenceError before either argument is looked at.
\<close>

definition computerIntersection ::
  "'a list option \<Rightarrow> 'a list option \<Rightarrow> exception + 'a list" where
  "computerIntersection a b = Inl (ReferenceError ''computerIntersection'')"

text \<open>
  Lines 85 to 100. \<open>null\<close> is \<open>None\<close>; an object is truthy. The three intersections are
  computed in the order of the source, and the first exception ends the call.
\<close>

definition intersection_body ::
  "'f MessageCapabilities option \<Rightarrow> 'f MessageCapabilities option
   \<Rightarrow> exception + 'f MessageCapabilities option" where
  "intersection_body mc1 mc2 =
     (case mc1 of
        None \<Rightarrow> Inr None
      | Some m1 \<Rightarrow>
     (case mc2 of
        None \<Rightarrow> Inr None
      | Some m2 \<Rightarrow>
     (case computeIntersection (prop_value (compressionAlgorithms m1))
                               (prop_value (compressionAlgorithms m2)) of
        Inl e \<Rightarrow> Inl e
      | Inr compressionAlgos \<Rightarrow>
     (case computeIntersection (prop_value (languages m1)) (prop_value (languages m2)) of
        Inl e \<Rightarrow> Inl e
      | Inr langs \<Rightarrow>
     (case computerIntersection (prop_value (encoderFormats m1))
                                (prop_value (encoderFormats m2)) of
        Inl e \<Rightarrow> Inl e
      | Inr formats \<Rightarrow>
          Inr (Some (init_body (Some compressionAlgos) (Some langs) (Some formats))))))))"

subsection \<open>The body of MessageCapabilities$parse\<close>

text \<open>The values an MSL array can hold, as far as the sources tell them apart.\<close>

datatype js_value =
    Uint8Array "8 word list"
  | StringObject string
  | StringPrimitive string
  | NumberValue int
  | BooleanValue bool
  | NullValue
  | UndefinedValue
  | ObjectValue

text \<open>
  \<open>MslObject\<close> and \<open>MslArray\<close> are not among the sources. \<open>capabilitiesMo\<close> is given by
  what its \<open>optMslArray\<close> returns for the three keys: an array or \<open>null\<close>. The source reads
  such an array through \<open>length\<close> and by index. The entries of the compression list are
  read raw (\<open>algos[i]\<close>) and are modelled at the type the constructor documents, strings;
  the entries of the other two lists are read through \<open>getString\<close>, which can throw.

  Three more parts are not among the sources and are parameters of the parse:
  \<^item> \<open>table\<close>: the own properties of the object \<open>MslConstants$CompressionAlgorithm\<close>, a name
    with the enum-coded string stored under it;
  \<^item> \<open>getString v\<close>: what \<open>getString(i)\<close> does at an index that holds \<open>v\<close>;
  \<^item> \<open>getFormat nm\<close>: what \<open>MslEncoderFormat.getFormat(nm)\<close> returns, \<open>None\<close> when falsy.
\<close>

record capabilitiesMo =
  algos :: "string list option"
  langs :: "js_value list option"
  formats :: "js_value list option"

text \<open>
  The test \<open>if (MslConstants$CompressionAlgorithm[algo])\<close> reads the table like any
  object: an own entry is truthy when its string is not empty, and a name that
  \<open>Object.prototype\<close> defines reads as a built-in value, which is truthy.
\<close>

definition CompressionAlgorithm_truthy :: "(string \<times> string) list \<Rightarrow> string \<Rightarrow> bool" where
  "CompressionAlgorithm_truthy table algo =
     (case js_get table algo of
        JOwn v \<Rightarrow> v \<noteq> []
      | JBuiltin f \<Rightarrow> True
      | JUndefined \<Rightarrow> False
      | JNull \<Rightarrow> False)"

fun extract_compressionAlgos ::
  "(string \<times> string) list \<Rightarrow> string list \<Rightarrow> string list \<Rightarrow> string list" where
  "extract_compressionAlgos table [] compressionAlgos = compressionAlgos"
| "extract_compressionAlgos table (algo # rest) compressionAlgos =
     extract_compressionAlgos table rest
       (if CompressionAlgorithm_truthy table algo then compressionAlgos @ [algo]
        else compressionAlgos)"

fun extract_languages ::
  "(js_value \<Rightarrow> exception + string) \<Rightarrow> js_value list \<Rightarrow> string list \<Rightarrow> exception + string list" where
  "extract_languages getString [] acc = Inr acc"
| "extract_languages getString (v # rest) acc =
     (case getString v of
        Inl e \<Rightarrow> Inl e
      | Inr s \<Rightarrow> extract_languages getString rest (acc @ [s]))"

fun extract_encoderFormats ::
  "(js_value \<Rightarrow> exception + string) \<Rightarrow> (string \<Rightarrow> 'f option) \<Rightarrow> js_value list \<Rightarrow> 'f list
   \<Rightarrow> exception + 'f list" where
  "extract_encoderFormats getString getFormat [] acc = Inr acc"
| "extract_encoderFormats getString getFormat (v # rest) acc =
     (case getString v of
        Inl e \<Rightarrow> Inl e
      | Inr format \<Rightarrow>
          extract_encoderFormats getString getFormat rest
            (case getFormat format of None \<Rightarrow> acc | Some encoderFormat \<Rightarrow> acc @ [encoderFormat]))"

text \<open>
  The three loops have the guard \<open>arr && i < arr.length\<close>: a loop over \<open>null\<close> runs no
  step, a loop over an array visits its entries in order.
\<close>

definition entries :: "'a list option \<Rightarrow> 'a list" where
  "entries arr = (case arr of None \<Rightarrow> [] | Some xs \<Rightarrow> xs)"

text \<open>The \<open>try\<close> block.\<close>

definition parse_try ::
  "(string \<times> string) list \<Rightarrow> (js_value \<Rightarrow> exception + string) \<Rightarrow> (string \<Rightarrow> 'f option)
   \<Rightarrow> capabilitiesMo \<Rightarrow> exception + 'f MessageCapabilities" where
  "parse_try table getString getFormat mo =
     (let compressionAlgos = extract_compressionAlgos table (entries (algos mo)) []
      in case extract_languages getString (entries (langs mo)) [] of
           Inl e \<Rightarrow> Inl e
         | Inr languages1 \<Rightarrow>
        (case extract_encoderFormats getString getFormat (entries (formats mo)) [] of
           Inl e \<Rightarrow> Inl e
         | Inr encoderFormats1 \<Rightarrow>
             Inr (init_body (Some compressionAlgos) (Some languages1) (Some encoderFormats1))))"

text \<open>
  Lines 170 to 205: the \<open>try\<close> block and its \<open>catch\<close>. An \<open>MslEncoderException\<close> is wrapped
  in an \<open>MslEncodingException\<close> with \<open>MslError.MSL_PARSE_ERROR\<close>; any other exception is
  thrown on as it is.
\<close>

definition parse_body ::
  "(string \<times> string) list \<Rightarrow> (js_value \<Rightarrow> exception + string) \<Rightarrow> (string \<Rightarrow> 'f option)
   \<Rightarrow> capabilitiesMo \<Rightarrow> exception + 'f MessageCapabilities" where
  "parse_body table getString getFormat mo =
     (case parse_try table getString getFormat mo of
        Inl e \<Rightarrow>
          if is_MslEncoderException e then Inl (MslEncodingException MSL_PARSE_ERROR e)
          else Inl e
      | Inr mc \<Rightarrow> Inr mc)"

subsection \<open>The three globals as a caller of the shipped script meets them\<close>

text \<open>
  \<open>new MessageCapabilities(...)\<close>, \<open>MessageCapabilities$intersection(...)\<close> and
  \<open>MessageCapabilities$parse(...)\<close>: each reads its global first.
\<close>

definition MessageCapabilities_init ::
  "string list option \<Rightarrow> string list option \<Rightarrow> 'f list option
   \<Rightarrow> exception + 'f MessageCapabilities" where
  "MessageCapabilities_init compressionAlgos languageList encoderFormatList =
     use_global ''MessageCapabilities''
       (Inr (init_body compressionAlgos languageList encoderFormatList))"

definition MessageCapabilities_intersection ::
  "'f MessageCapabilities option \<Rightarrow> 'f MessageCapabilities option
   \<Rightarrow> exception + 'f MessageCapabilities option" where
  "MessageCapabilities_intersection mc1 mc2 =
     use_global ''MessageCapabilities$intersection'' (intersection_body mc1 mc2)"

definition MessageCapabilities_parse ::
  "(string \<times> string) list \<Rightarrow> (js_value \<Rightarrow> exception + string) \<Rightarrow> (string \<Rightarrow> 'f option)
   \<Rightarrow> capabilitiesMo \<Rightarrow> exception + 'f MessageCapabilities" where
  "MessageCapabilities_parse table getString getFormat mo =
     use_global ''MessageCapabilities$parse'' (parse_body table getString getFormat mo)"

subsection \<open>What the constructor body establishes\<close>

definition constructed :: "'f MessageCapabilities \<Rightarrow> bool" where
  "constructed mc =
     ((case prop_value (compressionAlgorithms mc) of None \<Rightarrow> False | Some xs \<Rightarrow> sorted xs)
      \<and> prop_value (languages mc) \<noteq> None
      \<and> prop_value (encoderFormats mc) \<noteq> None
      \<and> \<not> writable (compressionAlgorithms mc)
      \<and> \<not> writable (languages mc)
      \<and> \<not> writable (encoderFormats mc)
      \<and> \<not> configurable (compressionAlgorithms mc)
      \<and> \<not> configurable (languages mc)
      \<and> \<not> configurable (encoderFormats mc))"

section \<open>The ECC crypto context\<close>

text \<open>
  A caller passes a pair of continuations: \<open>result\<close> receives the value of a successful
  operation and \<open>error\<close> receives the exception of a failed one. \<open>'r\<close> is what running a
  continuation amounts to for the caller.
\<close>

record ('a, 'r) callback =
  result :: "'a \<Rightarrow> 'r"
  error :: "exception \<Rightarrow> 'r"

text \<open>
  Modelled from the spec: \<open>AsyncExecutor\<close> is not among the sources. Section 5 of the
  specification describes the contract: an operation is invoked with a continuation pair,
  the success continuation receives the result and the failure continuation receives the
  error condition. \<open>AsyncExecutor(callback, func, thisArg)\<close> runs \<open>func\<close> on \<open>thisArg\<close>,
  hands the value it returns to \<open>callback.result\<close> and the exception it throws to
  \<open>callback.error\<close>.
\<close>

definition AsyncExecutor :: "('a, 'r) callback \<Rightarrow> ('t \<Rightarrow> exception + 'a) \<Rightarrow> 't \<Rightarrow> 'r" where
  "AsyncExecutor callback func this =
     (case func this of
        Inl e \<Rightarrow> error callback e
      | Inr v \<Rightarrow> result callback v)"

text \<open>A callback that only records what it was handed.\<close>

datatype 'a delivery = Delivered 'a | Failed exception

definition recording :: "('a, 'a delivery list) callback" where
  "recording = \<lparr> result = (\<lambda>v. [Delivered v]), error = (\<lambda>e. [Failed e]) \<rparr>"

record 'k EccCryptoContext =
  privateKey :: "'k property"

definition EccCryptoContext_init :: "'c \<Rightarrow> 'k \<Rightarrow> 'k EccCryptoContext" where
  "EccCryptoContext_init ctx key =
     \<lparr> privateKey = \<lparr> prop_value = key, writable = False,
                      enumerable = False, configurable = False \<rparr> \<rparr>"

definition encrypt ::
  "'k EccCryptoContext \<Rightarrow> 8 word list \<Rightarrow> 'e \<Rightarrow> 'm \<Rightarrow> (8 word list, 'r) callback \<Rightarrow> 'r" where
  "encrypt this data encoder format callback =
     AsyncExecutor callback (\<lambda>this. Inr data) this"

definition decrypt ::
  "'k EccCryptoContext \<Rightarrow> 8 word list \<Rightarrow> 'e \<Rightarrow> (8 word list, 'r) callback \<Rightarrow> 'r" where
  "decrypt this data encoder callback =
     AsyncExecutor callback (\<lambda>this. Inr data) this"

definition wrap ::
  "'k EccCryptoContext \<Rightarrow> 'w \<Rightarrow> 'e \<Rightarrow> 'm \<Rightarrow> (8 word list, 'r) callback \<Rightarrow> 'r" where
  "wrap this key encoder format callback =
     AsyncExecutor callback
       (\<lambda>this. Inl (MslCryptoException WRAP_NOT_SUPPORTED ''ECC does not wrap'')) this"

definition unwrap ::
  "'k EccCryptoContext \<Rightarrow> 8 word list \<Rightarrow> 'g \<Rightarrow> 'u \<Rightarrow> 'e \<Rightarrow> ('w, 'r) callback \<Rightarrow> 'r" where
  "unwrap this data algo usages encoder callback =
     AsyncExecutor callback
       (\<lambda>this. Inl (MslCryptoException UNWRAP_NOT_SUPPORTED ''ECC does not unwrap'')) this"

definition verify ::
  "'k EccCryptoContext \<Rightarrow> 8 word list \<Rightarrow> 8 word list \<Rightarrow> 'e \<Rightarrow> (bool, 'r) callback \<Rightarrow> 'r" where
  "verify this data signature encoder callback =
     AsyncExecutor callback
       (\<lambda>this. Inl (MslCryptoException VERIFY_NOT_SUPPORTED ''ECC does not verify'')) this"

section \<open>JsonMslArray.getBytes\<close>

text \<open>
  The text JavaScript gives an integer when it is joined to a string: the decimal digits,
  for a magnitude below \<open>10^21\<close>. From there on JavaScript prints an exponent form, which is
  not modelled; an array index stays below \<open>2^32\<close>.
\<close>

fun digits :: "nat \<Rightarrow> string" where
  "digits n =
     (if n < 10 then [''0123456789'' ! n]
      else digits (n div 10) @ [''0123456789'' ! (n mod 10)])"

declare digits.simps [simp del]

definition ToString :: "int \<Rightarrow> string" where
  "ToString i = (if i < 0 then ''-'' @ digits (nat (- i)) else digits (nat i))"

text \<open>
  \<open>this.get\<close> belongs to \<open>MslArray\<close> and \<open>base64$decode\<close> to another file; neither is among
  the sources, so both are parameters: \<open>get index\<close> is the value \<open>this.get(index)\<close> returns
  or the exception it throws, and \<open>base64_decode s\<close> likewise for \<open>base64$decode(s)\<close>.
  The three tests are made in the order of the source; \<open>value.valueOf()\<close> of a
  \<open>String\<close> object is its text.
\<close>

definition getBytes ::
  "(int \<Rightarrow> exception + js_value) \<Rightarrow> (string \<Rightarrow> exception + 8 word list) \<Rightarrow> int
   \<Rightarrow> exception + 8 word list" where
  "getBytes get base64_decode index =
     (case get index of
        Inl e \<Rightarrow> Inl e
      | Inr v \<Rightarrow>
          (case v of
             Uint8Array bytes \<Rightarrow> Inr bytes
           | StringObject s \<Rightarrow> base64_decode s
           | StringPrimitive s \<Rightarrow> base64_decode s
           | _ \<Rightarrow> Inl (MslEncoderException
                        (''MslArray['' @ ToString index @ ''] is not binary data.''))))"

text \<open>The two tests of \<open>getBytes\<close> as predicates on the value held.\<close>

fun is_Uint8Array :: "js_value \<Rightarrow> bool" where
  "is_Uint8Array (Uint8Array bytes) = True"
| "is_Uint8Array v = False"

fun is_string :: "js_value \<Rightarrow> bool" where
  "is_string (StringObject s) = True"
| "is_string (StringPrimitive s) = True"
| "is_string v = False"

section \<open>Instances of the parameters\<close>

text \<open>
  Concrete values for the parts that are parameters above, used where a statement is
  evaluated on an input. The table follows the header comment of MessageCapabilities.js,
  \<open>enum(GZIP|LZW)\<close>.
\<close>

definition example_table :: "(string \<times> string) list" where
  "example_table = [(''GZIP'', ''GZIP''), (''LZW'', ''LZW'')]"

definition example_getString :: "js_value \<Rightarrow> exception + string" where
  "example_getString v =
     (case v of
        StringPrimitive s \<Rightarrow> Inr s
      | _ \<Rightarrow> Inl (MslEncoderException ''not a string''))"

definition example_getFormat :: "string \<Rightarrow> string option" where
  "example_getFormat nm = (if nm = ''JSON'' then Some ''JSON'' else None)"

definition example_mo :: capabilitiesMo where
  "example_mo =
     \<lparr> algos = Some [''LZW'', ''FOO'', ''GZIP''],
       langs = Some [StringPrimitive ''en''],
       formats = Some [StringPrimitive ''XML'', StringPrimitive ''JSON''] \<rparr>"

definition example_get :: "int \<Rightarrow> exception + js_value" where
  "example_get i =
     (if i = 0 then Inr (Uint8Array [1, 2])
      else if i = 1 then Inr (StringPrimitive ''AQI='')
      else if i = 2 then Inr (StringObject ''AQI='')
      else if i = 3 then Inr (NumberValue 7)
      else Inl (TypeError ''index''))"

definition example_base64_decode :: "string \<Rightarrow> exception + 8 word list" where
  "example_base64_decode s =
     (if s = ''AQI='' then Inr [1, 2] else Inl (TypeError ''base64''))"

section \<open>Properties of the key exchange scheme table\<close>

lemma getScheme_neither_own_nor_inherited:
  "map_of schemes nm = None \<Longrightarrow> nm \<notin> set Object_prototype
   \<Longrightarrow> KeyExchangeScheme_getScheme schemes nm = JNull"
  by (simp add: KeyExchangeScheme_getScheme_def js_get_def)

text \<open>
  C4. The claim: for every name that is not the name of a registered scheme,
  \<open>KeyExchangeScheme$getScheme\<close> returns \<open>null\<close>. The lookup never throws, and it returns
  \<open>null\<close> for a name that is neither registered nor a property of \<open>Object.prototype\<close>
  (the lemma above). At the name \<open>toString\<close>, which no scheme carries, the table read
  \<open>schemes[name]\<close> finds the inherited function, which is truthy, and the function is
  returned in place of \<open>null\<close>.
\<close>

theorem getScheme_toString_not_null:
  "''toString'' \<notin> set (map fst registered)
   \<and> KeyExchangeScheme_getScheme registered ''toString'' = JBuiltin ''toString''
   \<and> KeyExchangeScheme_getScheme registered ''toString'' \<noteq> JNull"
  by code_simp

text \<open>
  C5. After initialization the table has exactly the five names as its own keys, in the
  order of the source; the objects stored are the five static members; each stored object
  carries the name it is stored under, so the names are pairwise different and each name
  belongs to one object only; and \<open>getScheme\<close> returns, for each of the five names, the
  object stored under it.
\<close>

theorem five_schemes_registered:
  "map fst registered =
     [''ASYMMETRIC_WRAPPED'', ''DIFFIE_HELLMAN'', ''JWE_LADDER'', ''JWK_LADDER'',
      ''SYMMETRIC_WRAPPED'']
   \<and> map snd registered =
     [ASYMMETRIC_WRAPPED statics, DIFFIE_HELLMAN statics, JWE_LADDER statics,
      JWK_LADDER statics, SYMMETRIC_WRAPPED statics]
   \<and> map (\<lambda>s. prop_value (name s)) (map snd registered) = map fst registered
   \<and> distinct (map (\<lambda>s. prop_value (name s)) (map snd registered))
   \<and> map (KeyExchangeScheme_getScheme registered) (map fst registered)
       = map JOwn (map snd registered)"
  by code_simp

section \<open>Properties of the shipped script\<close>

lemma script_rejected:
  "MessageCapabilities_js = Inl (SyntaxError ''Unexpected identifier'')"
  by (simp add: MessageCapabilities_js_def extend_members_def)

lemma global_not_defined: "use_global nm body = Inl (ReferenceError nm)"
  by (simp add: use_global_def script_rejected)

section \<open>Properties of the capability intersection\<close>

lemma proto_inherited: "''__proto__'' \<in> set Object_prototype"
  by (simp add: Object_prototype_def)

lemma fill_hash_map_of:
  "map_of (fill_hash xs hash) k
     = (if k \<in> set xs \<and> k \<noteq> ''__proto__'' then Some True else map_of hash k)"
  by (induction xs arbitrary: hash) (auto simp: update_conv)

lemma push_common_filter:
  "push_common hash ys acc = acc @ filter (hash_truthy hash) ys"
  by (induction ys arbitrary: acc) auto

lemma hash_truthy_fill:
  "hash_truthy (fill_hash xs []) = (\<lambda>k. k \<in> set xs \<or> k \<in> set Object_prototype)"
proof (rule ext)
  fix k
  show "hash_truthy (fill_hash xs []) k = (k \<in> set xs \<or> k \<in> set Object_prototype)"
    using proto_inherited
    by (cases "k = ''__proto__''") (simp_all add: hash_truthy_def js_get_def fill_hash_map_of)
qed

text \<open>
  The helper keeps the elements of \<open>b\<close>, in the order of \<open>b\<close>, that occur in \<open>a\<close> or are
  names of \<open>Object.prototype\<close>.
\<close>

lemma computeIntersection_filter:
  "computeIntersection (Some a) (Some b)
     = Inr (filter (\<lambda>y. y \<in> set a \<or> y \<in> set Object_prototype) b)"
  by (simp add: computeIntersection_def push_common_filter hash_truthy_fill)

lemma computeIntersection_common_elements:
  assumes "set b \<inter> set Object_prototype = {}"
  shows "\<exists>r. computeIntersection (Some a) (Some b) = Inr r
           \<and> set r = set a \<inter> set b \<and> (distinct b \<longrightarrow> distinct r)"
  using assms by (auto simp add: computeIntersection_filter)

lemma computeIntersection_inherited_name:
  "computeIntersection (Some [''en'']) (Some [''valueOf'']) = Inr [''valueOf'']"
  by code_simp

text \<open>
  C1. The claim: for non-null \<open>A\<close> and \<open>B\<close>, \<open>MessageCapabilities$intersection(A, B)\<close>
  produces the three lists of common elements. On the two objects below the helper gives
  the common compression algorithms and the common languages, and the body of the function
  ends with the ReferenceError of line 97: no object is produced. In the shipped script,
  which is rejected for the comma missing after line 146, the call does not reach the
  body: the name of the function is not defined.
\<close>

theorem intersection_produces_no_lists:
  "computeIntersection (Some [''GZIP'']) (Some [''GZIP'', ''LZW'']) = Inr [''GZIP'']
   \<and> computeIntersection (Some [''en'']) (Some [''en'', ''fr'']) = Inr [''en'']
   \<and> intersection_body
        (Some (init_body (Some [''GZIP'']) (Some [''en'']) (Some [''JSON''])))
        (Some (init_body (Some [''GZIP'', ''LZW'']) (Some [''en'', ''fr''])
                 (Some [''JSON''])))
      = Inl (ReferenceError ''computerIntersection'')
   \<and> MessageCapabilities_intersection
        (Some (init_body (Some [''GZIP'']) (Some [''en'']) (Some [''JSON''])))
        (Some (init_body (Some [''GZIP'', ''LZW'']) (Some [''en'', ''fr''])
                 (Some [''JSON''])))
      = Inl (ReferenceError ''MessageCapabilities$intersection'')"
  by code_simp

text \<open>
  C2. The claim: for every pair of non-null capabilities the intersection returns an
  object and never throws. For every pair of constructed objects the body of the function
  throws the ReferenceError of line 97; and for every pair of arguments the call in the
  shipped script throws, the name of the function not being defined.
\<close>

theorem intersection_always_raises:
  "intersection_body (Some (init_body a1 a2 a3)) (Some (init_body b1 b2 b3))
     = Inl (ReferenceError ''computerIntersection'')
   \<and> MessageCapabilities_intersection (Some m1) (Some m2)
     = Inl (ReferenceError ''MessageCapabilities$intersection'')"
  by (simp add: intersection_body_def init_body_def Let_def
      computeIntersection_def computerIntersection_def
      MessageCapabilities_intersection_def use_global_def MessageCapabilities_js_def
      extend_members_def)

text \<open>
  The guard of line 86, in the body: when either argument is \<open>null\<close> the body returns
  \<open>null\<close>, whatever the other argument is.
\<close>

lemma intersection_body_null:
  "intersection_body A None = Inr None \<and> intersection_body None A = Inr None"
  by (cases A) (simp_all add: intersection_body_def)

text \<open>
  C3. The claim: \<open>MessageCapabilities$intersection(A, null)\<close> and
  \<open>MessageCapabilities$intersection(null, A)\<close> return \<open>null\<close>, also when \<open>A\<close> is \<open>null\<close>.
  The shipped script is rejected with a SyntaxError, so the function is never defined and
  each of these calls throws a ReferenceError. The body of the function, which the script
  never binds, would return \<open>null\<close> in each case.
\<close>

theorem intersection_with_null_not_defined:
  "MessageCapabilities_js = Inl (SyntaxError ''Unexpected identifier'')
   \<and> MessageCapabilities_intersection None None
        = Inl (ReferenceError ''MessageCapabilities$intersection'')
   \<and> MessageCapabilities_intersection A None
        = Inl (ReferenceError ''MessageCapabilities$intersection'')
   \<and> MessageCapabilities_intersection None A
        = Inl (ReferenceError ''MessageCapabilities$intersection'')
   \<and> intersection_body A None = Inr None
   \<and> intersection_body None A = Inr None"
proof -
  have "intersection_body A None = Inr None" and "intersection_body None A = Inr None"
    by (cases A; simp add: intersection_body_def)+
  then show ?thesis
    by (simp add: MessageCapabilities_intersection_def use_global_def
        MessageCapabilities_js_def extend_members_def)
qed

section \<open>Properties of the constructor and of the parse\<close>

lemma extract_compressionAlgos_filter:
  "extract_compressionAlgos table xs acc
     = acc @ filter (CompressionAlgorithm_truthy table) xs"
  by (induction xs arbitrary: acc) auto

lemma extract_languages_strings:
  "map getString vs = map Inr names
   \<Longrightarrow> extract_languages getString vs acc = Inr (acc @ names)"
proof (induction vs arbitrary: acc names)
  case Nil
  then show ?case by simp
next
  case (Cons v vs)
  then obtain n ns where names: "names = n # ns" and v: "getString v = Inr n"
    and rest: "map getString vs = map Inr ns"
    by (cases names) auto
  from Cons.IH [OF rest] v names show ?case by simp
qed

lemma extract_encoderFormats_strings:
  "map getString vs = map Inr names
   \<Longrightarrow> extract_encoderFormats getString getFormat vs acc
         = Inr (acc @ List.map_filter getFormat names)"
proof (induction vs arbitrary: acc names)
  case Nil
  then show ?case by (simp add: List.map_filter_simps)
next
  case (Cons v vs)
  then obtain n ns where names: "names = n # ns" and v: "getString v = Inr n"
    and rest: "map getString vs = map Inr ns"
    by (cases names) auto
  from Cons.IH [OF rest] v names show ?case
    by (simp add: List.map_filter_simps split: option.splits)
qed

text \<open>
  What the body of the parse does when \<open>getString\<close> reads every entry of the language
  list and of the encoder format list as a string: it returns an object whose compression
  algorithms are the entries that pass the table test, sorted, whose languages are the
  entries as read, and whose encoder formats are the formats \<open>getFormat\<close> knows.
\<close>

lemma parse_body_keeps_what_passes:
  assumes "map getString (entries (langs mo)) = map Inr lang_names"
    and "map getString (entries (formats mo)) = map Inr format_names"
  shows "\<exists>mc. parse_body table getString getFormat mo = Inr mc
     \<and> prop_value (compressionAlgorithms mc)
         = Some (sort (filter (CompressionAlgorithm_truthy table) (entries (algos mo))))
     \<and> prop_value (languages mc) = Some lang_names
     \<and> prop_value (encoderFormats mc) = Some (List.map_filter getFormat format_names)"
  using assms
  by (simp add: parse_body_def parse_try_def Let_def
      extract_compressionAlgos_filter extract_languages_strings extract_encoderFormats_strings
      init_body_def)

text \<open>
  The table test passes a name that \<open>Object.prototype\<close> defines: the body keeps
  \<open>toString\<close> among the compression algorithms, next to \<open>GZIP\<close>.
\<close>

lemma parse_body_keeps_inherited_name:
  "parse_body example_table example_getString example_getFormat
     \<lparr> algos = Some [''toString'', ''GZIP'', ''FOO''], langs = None, formats = None \<rparr>
   = Inr (init_body (Some [''GZIP'', ''toString'']) (Some []) (Some []))"
  by code_simp

text \<open>
  An entry of the language list that \<open>getString\<close> rejects ends the body with the
  \<open>MslEncodingException\<close> of the \<open>catch\<close> block.
\<close>

lemma parse_body_rejects_wrong_type:
  "parse_body example_table example_getString example_getFormat
     \<lparr> algos = Some [''GZIP'', ''FOO''], langs = Some [NumberValue 5], formats = None \<rparr>
   = Inl (MslEncodingException MSL_PARSE_ERROR (MslEncoderException ''not a string''))"
  by code_simp

text \<open>
  C9. The claim: an encoded capabilities object whose compression list holds recognized
  and unrecognized values parses successfully and retains the recognized values. The
  shipped script is rejected with a SyntaxError, so \<open>MessageCapabilities$parse\<close> is never
  defined and the call throws a ReferenceError, whatever the object holds. The body of the
  function, which the script never binds, would on the example object keep \<open>GZIP\<close> and
  \<open>LZW\<close>, drop \<open>FOO\<close> and drop the encoder format \<open>XML\<close>.
\<close>

theorem parse_not_defined:
  "MessageCapabilities_parse table getString getFormat mo
     = Inl (ReferenceError ''MessageCapabilities$parse'')
   \<and> MessageCapabilities_parse example_table example_getString example_getFormat example_mo
     = Inl (ReferenceError ''MessageCapabilities$parse'')
   \<and> algos example_mo = Some [''LZW'', ''FOO'', ''GZIP'']
   \<and> parse_body example_table example_getString example_getFormat example_mo
     = Inr (init_body (Some [''GZIP'', ''LZW'']) (Some [''en'']) (Some [''JSON'']))"
proof -
  have "parse_body example_table example_getString example_getFormat example_mo
     = Inr (init_body (Some [''GZIP'', ''LZW'']) (Some [''en'']) (Some [''JSON'']))"
    by code_simp
  then show ?thesis
    by (simp add: MessageCapabilities_parse_def use_global_def MessageCapabilities_js_def
        extend_members_def example_mo_def)
qed

lemma parse_try_init:
  "parse_try table g f mo = Inr mc
   \<Longrightarrow> \<exists>a b c. mc = init_body (Some a) (Some b) (Some c)"
  by (auto simp: parse_try_def Let_def split: sum.splits)

lemma constructed_init_body: "constructed (init_body ca l ef)"
  by (simp add: constructed_def init_body_def Let_def)

text \<open>Every object the body of the parse returns is one the constructor body built.\<close>

lemma parse_body_constructed:
  assumes "parse_body table g f mo = Inr mc"
  shows "constructed mc"
proof -
  from assms have "parse_try table g f mo = Inr mc"
    by (auto simp: parse_body_def split: sum.splits if_splits)
  then obtain a b c where "mc = init_body (Some a) (Some b) (Some c)"
    using parse_try_init by blast
  then show ?thesis
    by (simp add: constructed_init_body)
qed

text \<open>
  C10. The claim: every object, constructed directly or by the parse, holds three
  non-null lists, the empty list in place of a \<open>null\<close> argument, the compression
  algorithms sorted, and its three properties are not writable. The shipped script is
  rejected with a SyntaxError, so neither the constructor nor the parse is defined:
  \<open>new MessageCapabilities(...)\<close> throws a ReferenceError for every three arguments, and
  no object is built. The constructor body, which the script never binds, would build an
  object with each of these properties.
\<close>

theorem constructor_not_defined:
  "MessageCapabilities_init ca l ef = Inl (ReferenceError ''MessageCapabilities'')
   \<and> MessageCapabilities_init None None None = Inl (ReferenceError ''MessageCapabilities'')
   \<and> MessageCapabilities_parse table g f mo
        = Inl (ReferenceError ''MessageCapabilities$parse'')
   \<and> constructed (init_body ca l ef)
   \<and> prop_value (compressionAlgorithms (init_body ca l ef)) = Some (sort (entries ca))
   \<and> prop_value (languages (init_body ca l ef)) = Some (entries l)
   \<and> prop_value (encoderFormats (init_body ca l ef)) = Some (entries ef)
   \<and> prop_value (compressionAlgorithms (init_body None l ef)) = Some []
   \<and> prop_value (languages (init_body ca None ef)) = Some []
   \<and> prop_value (encoderFormats (init_body ca l None)) = Some []"
proof -
  have "prop_value (compressionAlgorithms (init_body ca l ef)) = Some (sort (entries ca))"
    and "prop_value (languages (init_body ca l ef)) = Some (entries l)"
    and "prop_value (encoderFormats (init_body ca l ef)) = Some (entries ef)"
    and "prop_value (compressionAlgorithms (init_body None l ef)) = Some []"
    and "prop_value (languages (init_body ca None ef)) = Some []"
    and "prop_value (encoderFormats (init_body ca l None)) = Some []"
    by (simp_all add: init_body_def Let_def entries_def)
  moreover have "constructed (init_body ca l ef)"
    by (simp add: constructed_def init_body_def Let_def)
  ultimately show ?thesis
    by (simp add: MessageCapabilities_init_def MessageCapabilities_parse_def use_global_def
        MessageCapabilities_js_def extend_members_def)
qed

section \<open>Properties of the ECC crypto context\<close>

text \<open>
  C6. Whatever the arguments and the callback, \<open>verify\<close>, \<open>wrap\<close> and \<open>unwrap\<close> hand an
  \<open>MslCryptoException\<close> to the error continuation, with \<open>VERIFY_NOT_SUPPORTED\<close>,
  \<open>WRAP_NOT_SUPPORTED\<close> and \<open>UNWRAP_NOT_SUPPORTED\<close> in turn; the three conditions differ;
  a callback that records what it receives sees the one failure and no result.
\<close>

theorem ecc_not_supported:
  "verify this data signature encoder callback1
     = error callback1 (MslCryptoException VERIFY_NOT_SUPPORTED ''ECC does not verify'')
   \<and> wrap this key encoder format callback2
     = error callback2 (MslCryptoException WRAP_NOT_SUPPORTED ''ECC does not wrap'')
   \<and> unwrap this data algo usages encoder callback3
     = error callback3 (MslCryptoException UNWRAP_NOT_SUPPORTED ''ECC does not unwrap'')
   \<and> verify this data signature encoder recording
     = [Failed (MslCryptoException VERIFY_NOT_SUPPORTED ''ECC does not verify'')]
   \<and> wrap this key encoder format recording
     = [Failed (MslCryptoException WRAP_NOT_SUPPORTED ''ECC does not wrap'')]
   \<and> unwrap this data algo usages encoder recording
     = [Failed (MslCryptoException UNWRAP_NOT_SUPPORTED ''ECC does not unwrap'')]
   \<and> distinct [VERIFY_NOT_SUPPORTED, WRAP_NOT_SUPPORTED, UNWRAP_NOT_SUPPORTED]"
  by (simp add: verify_def wrap_def unwrap_def AsyncExecutor_def recording_def)

text \<open>
  C7. \<open>encrypt\<close> and \<open>decrypt\<close> hand the data they were given, unchanged, to the success
  continuation; decrypting in the success continuation of an encryption hands the
  original data to the caller's success continuation.
\<close>

theorem ecc_encrypt_decrypt_identity:
  "encrypt this data encoder format callback = result callback data
   \<and> decrypt this data encoder callback = result callback data
   \<and> encrypt this data encoder format
        \<lparr> result = (\<lambda>ciphertext. decrypt this ciphertext encoder callback),
          error = error callback \<rparr> = result callback data
   \<and> encrypt this data encoder format recording = [Delivered data]
   \<and> decrypt this data encoder recording = [Delivered data]"
  by (simp add: encrypt_def decrypt_def AsyncExecutor_def recording_def)

section \<open>Properties of JsonMslArray.getBytes\<close>

text \<open>
  C8. At an index where the array holds a \<open>Uint8Array\<close>, \<open>getBytes\<close> returns it as it
  is; where it holds a string, primitive or object, \<open>getBytes\<close> is the Base64 decoding of
  the text; where it holds a value of any other kind, \<open>getBytes\<close> throws an
  \<open>MslEncoderException\<close>.
\<close>

theorem getBytes_by_kind:
  "(get index = Inr (Uint8Array bytes) \<longrightarrow> getBytes get base64_decode index = Inr bytes)
   \<and> (get index = Inr (StringPrimitive s) \<longrightarrow>
        getBytes get base64_decode index = base64_decode s)
   \<and> (get index = Inr (StringObject s) \<longrightarrow>
        getBytes get base64_decode index = base64_decode s)
   \<and> (get index = Inr v \<and> \<not> is_Uint8Array v \<and> \<not> is_string v \<longrightarrow>
        getBytes get base64_decode index
          = Inl (MslEncoderException
                   (''MslArray['' @ ToString index @ ''] is not binary data.'')))"
  by (cases v) (simp_all add: getBytes_def)

theorem getBytes_by_kind_witness:
  "example_get 0 = Inr (Uint8Array [1, 2])
   \<and> getBytes example_get example_base64_decode 0 = Inr [1, 2]
   \<and> example_get 1 = Inr (StringPrimitive ''AQI='')
   \<and> getBytes example_get example_base64_decode 1 = Inr [1, 2]
   \<and> example_get 2 = Inr (StringObject ''AQI='')
   \<and> getBytes example_get example_base64_decode 2 = Inr [1, 2]
   \<and> example_get 3 = Inr (NumberValue 7)
   \<and> getBytes example_get example_base64_decode 3
        = Inl (MslEncoderException ''MslArray[3] is not binary data.'')"
proof -
  have g0: "example_get 0 = Inr (Uint8Array [1, 2])"
    and g1: "example_get 1 = Inr (StringPrimitive ''AQI='')"
    and g2: "example_get 2 = Inr (StringObject ''AQI='')"
    and g3: "example_get 3 = Inr (NumberValue 7)"
    by (simp_all add: example_get_def)
  have d: "example_base64_decode ''AQI='' = Inr [1, 2]"
    by (simp add: example_base64_decode_def)
  have t: "ToString 3 = ''3''"
    by (simp add: ToString_def digits.simps)
  from getBytes_by_kind [of example_get 0 "[1, 2]" example_base64_decode "''AQI=''"
         "NumberValue 7"]
       getBytes_by_kind [of example_get 1 "[1, 2]" example_base64_decode "''AQI=''"
         "NumberValue 7"]
       getBytes_by_kind [of example_get 2 "[1, 2]" example_base64_decode "''AQI=''"
         "NumberValue 7"]
       getBytes_by_kind [of example_get 3 "[1, 2]" example_base64_decode "''AQI=''"
         "NumberValue 7"]
  show ?thesis
    by (simp add: g0 g1 g2 g3 d t)
qed

end
